theory Spec2Isabelle
  imports Complex_Main
begin

section \<open>JavaScript values of the storage service\<close>

text \<open>
  The storage service keeps its ledger as JSON text under one AsyncStorage key. A JSON
  document is a value of type \<open>json\<close>; its numbers are the finite ones (a finite double is
  a real; the service does no arithmetic on them, it only tests them for truthiness and
  equality). A value at run time is \<open>undefined\<close>, one of the numbers \<open>NaN\<close>, \<open>Infinity\<close> and
  \<open>-Infinity\<close> that JSON text cannot carry, or JSON data. Arrays and objects held in a
  property are JSON data throughout.
\<close>

datatype json =
    JNull
  | JBool bool
  | JNum real
  | JStr string
  | JArr "json list"
  | JObj "(string \<times> json) list"

datatype jsval = Undefined | NaN | PosInfinity | NegInfinity | Val json

text \<open>
  An object at run time maps its own property names to values; a property may hold
  \<open>undefined\<close>. An object inside a JSON document has no such property.
\<close>

type_synonym obj = "string \<rightharpoonup> jsval"
type_synonym stored = "string \<rightharpoonup> json"

text \<open>Reading \<open>o.k\<close>: a missing property reads as \<open>undefined\<close>.\<close>

definition get_prop :: "obj \<Rightarrow> string \<Rightarrow> jsval" where
  "get_prop ob k = (case ob k of None \<Rightarrow> Undefined | Some v \<Rightarrow> v)"

text \<open>
  \<open>JSON.stringify\<close> of an object leaves out the properties whose value is \<open>undefined\<close>
  and writes \<open>null\<close> for \<open>NaN\<close>, \<open>Infinity\<close> and \<open>-Infinity\<close>; \<open>JSON.parse\<close> gives back an
  object whose properties all hold JSON data.
\<close>

fun json_of :: "jsval \<Rightarrow> json option" where
  "json_of Undefined = None"
| "json_of NaN = Some JNull"
| "json_of PosInfinity = Some JNull"
| "json_of NegInfinity = Some JNull"
| "json_of (Val j) = Some j"

definition stringify_obj :: "obj \<Rightarrow> stored" where
  "stringify_obj ob = (\<lambda>k. case ob k of None \<Rightarrow> None | Some v \<Rightarrow> json_of v)"

definition parse_obj :: "stored \<Rightarrow> obj" where
  "parse_obj s = (\<lambda>k. map_option Val (s k))"

fun is_primitive :: "json \<Rightarrow> bool" where
  "is_primitive (JArr _) = False"
| "is_primitive (JObj _) = False"
| "is_primitive _ = True"

text \<open>
  Strict equality \<open>a === b\<close>. Primitive values are compared by value, and \<open>NaN\<close> is
  equal to nothing, itself included. Arrays and objects are compared by reference; in
  every comparison the service makes, one operand is a property of an object that
  \<open>JSON.parse\<close> has just built (or the other operand is primitive), so an array or object
  is never equal to the other operand.
\<close>

fun strict_eq :: "jsval \<Rightarrow> jsval \<Rightarrow> bool" where
  "strict_eq Undefined Undefined = True"
| "strict_eq PosInfinity PosInfinity = True"
| "strict_eq NegInfinity NegInfinity = True"
| "strict_eq (Val a) (Val b) = (is_primitive a \<and> a = b)"
| "strict_eq _ _ = False"

text \<open>Truthiness, and \<open>a || b\<close>.\<close>

fun truthy :: "jsval \<Rightarrow> bool" where
  "truthy Undefined = False"
| "truthy NaN = False"
| "truthy PosInfinity = True"
| "truthy NegInfinity = True"
| "truthy (Val JNull) = False"
| "truthy (Val (JBool b)) = b"
| "truthy (Val (JNum n)) = (n \<noteq> 0)"
| "truthy (Val (JStr s)) = (s \<noteq> [])"
| "truthy (Val (JArr _)) = True"
| "truthy (Val (JObj _)) = True"

definition js_or :: "jsval \<Rightarrow> jsval \<Rightarrow> jsval" where
  "js_or a b = (if truthy a then a else b)"

section \<open>The platform\<close>

text \<open>
  What one call of the service gets from the platform: the document directory, the
  identifier \<open>uuidv4()\<close> returns, the time stamp \<open>new Date().toISOString()\<close> returns, and
  for each asynchronous platform call whether it rejects. The contents of the file
  system are not tracked, only whether a call on it succeeds.
\<close>

record env =
  documentDirectory :: string
  uuid :: string
  now :: string
  getInfo_fails :: bool
  dir_exists :: bool
  makeDirectory_fails :: bool
  copy_fails :: bool
  getItem_fails :: bool
  setItem_fails :: bool
  delete_fails :: bool

text \<open>
  An exception is the rejection of a platform call, or \<open>new Error(message)\<close> thrown by
  the service.
\<close>

datatype error = PlatformError | JsError string

text \<open>
  The state is the value stored under the key \<open>'recordings'\<close>: nothing (\<open>getItem\<close> gives
  \<open>null\<close>), or the JSON array the service wrote there last. A rejected \<open>setItem\<close> leaves
  the stored value as it was.
\<close>

type_synonym storage = "stored list option"

definition AsyncStorage_getItem :: "env \<Rightarrow> storage \<Rightarrow> error + storage" where
  "AsyncStorage_getItem e st = (if getItem_fails e then Inl PlatformError else Inr st)"

definition AsyncStorage_setItem :: "env \<Rightarrow> stored list \<Rightarrow> storage \<Rightarrow> (error + unit) \<times> storage" where
  "AsyncStorage_setItem e v st =
     (if setItem_fails e then (Inl PlatformError, st) else (Inr (), Some v))"

definition FileSystem_copyAsync :: "env \<Rightarrow> string \<Rightarrow> string \<Rightarrow> error + unit" where
  "FileSystem_copyAsync e from to = (if copy_fails e then Inl PlatformError else Inr ())"

definition FileSystem_deleteAsync :: "env \<Rightarrow> jsval \<Rightarrow> error + unit" where
  "FileSystem_deleteAsync e uri = (if delete_fails e then Inl PlatformError else Inr ())"

text \<open>The records of the persisted ledger, in their order.\<close>

definition ledger :: "storage \<Rightarrow> stored list" where
  "ledger st = (case st of None \<Rightarrow> [] | Some xs \<Rightarrow> xs)"

section \<open>The storage service\<close>

definition RECORDINGS_DIRECTORY :: "env \<Rightarrow> string" where
  "RECORDINGS_DIRECTORY e = documentDirectory e @ ''recordings/''"

definition ensureDirectoryExists :: "env \<Rightarrow> error + unit" where
  "ensureDirectoryExists e =
     (if getInfo_fails e then Inl PlatformError
      else if \<not> dir_exists e then
        (if makeDirectory_fails e then Inl PlatformError else Inr ())
      else Inr ())"

text \<open>
  \<open>try { body } catch (error) { console.error(...); throw new Error(message) }\<close>:
  whatever the body throws, the caller gets \<open>new Error(message)\<close>.
\<close>

definition catch_rethrow :: "string \<Rightarrow> (error + 'a) \<times> storage \<Rightarrow> (error + 'a) \<times> storage" where
  "catch_rethrow message r =
     (case r of (Inl _, st) \<Rightarrow> (Inl (JsError message), st) | (Inr v, st) \<Rightarrow> (Inr v, st))"

text \<open>The object literal that \<open>saveRecording\<close> builds, the spread of \<open>metadata\<close> last.\<close>

definition new_recording :: "env \<Rightarrow> obj \<Rightarrow> obj" where
  "new_recording e metadata =
     (let id = uuid e;
          filename = ''recording_'' @ id @ ''.m4a'';
          destinationUri = RECORDINGS_DIRECTORY e @ filename
      in [''id'' \<mapsto> Val (JStr id),
          ''filename'' \<mapsto> Val (JStr filename),
          ''uri'' \<mapsto> Val (JStr destinationUri),
          ''createdAt'' \<mapsto> Val (JStr (now e)),
          ''duration'' \<mapsto> js_or (get_prop metadata ''duration'') (Val (JNum 0)),
          ''size'' \<mapsto> js_or (get_prop metadata ''size'') (Val (JNum 0)),
          ''analysisResult'' \<mapsto> Val JNull]
         ++ metadata)"

definition saveRecording_try :: "env \<Rightarrow> string \<Rightarrow> obj \<Rightarrow> storage \<Rightarrow> (error + obj) \<times> storage" where
  "saveRecording_try e uri metadata st =
     (let filename = ''recording_'' @ uuid e @ ''.m4a'';
          destinationUri = RECORDINGS_DIRECTORY e @ filename
      in case FileSystem_copyAsync e uri destinationUri of
           Inl err \<Rightarrow> (Inl err, st)
         | Inr _ \<Rightarrow>
            (let recording = new_recording e metadata
             in case AsyncStorage_getItem e st of
                  Inl err \<Rightarrow> (Inl err, st)
                | Inr existingRecordingsJson \<Rightarrow>
                   (let existingRecordings =
                          (case existingRecordingsJson of
                             None \<Rightarrow> []
                           | Some xs \<Rightarrow> map parse_obj xs);
                        updatedRecordings = recording # existingRecordings
                    in case AsyncStorage_setItem e (map stringify_obj updatedRecordings) st of
                         (Inl err, st') \<Rightarrow> (Inl err, st')
                       | (Inr _, st') \<Rightarrow> (Inr recording, st'))))"

text \<open>\<open>ensureDirectoryExists\<close> is awaited before the \<open>try\<close>: its rejection is not wrapped.\<close>

definition saveRecording :: "env \<Rightarrow> string \<Rightarrow> obj \<Rightarrow> storage \<Rightarrow> (error + obj) \<times> storage" where
  "saveRecording e uri metadata st =
     (case ensureDirectoryExists e of
        Inl err \<Rightarrow> (Inl err, st)
      | Inr _ \<Rightarrow> catch_rethrow ''Failed to save recording'' (saveRecording_try e uri metadata st))"

text \<open>\<open>getRecordings\<close> never throws: a rejected read gives the empty list.\<close>

definition getRecordings :: "env \<Rightarrow> storage \<Rightarrow> obj list" where
  "getRecordings e st =
     (case AsyncStorage_getItem e st of
        Inl _ \<Rightarrow> []
      | Inr recordingsJson \<Rightarrow>
         (case recordingsJson of None \<Rightarrow> [] | Some xs \<Rightarrow> map parse_obj xs))"

text \<open>
  \<open>recordings.find(...) || null\<close>: an object is truthy, so the result is the record found,
  or \<open>null\<close> (here \<open>None\<close>).
\<close>

definition getRecordingById :: "env \<Rightarrow> jsval \<Rightarrow> storage \<Rightarrow> obj option" where
  "getRecordingById e ident st =
     find (\<lambda>recording. strict_eq (get_prop recording ''id'') ident) (getRecordings e st)"

text \<open>The result \<open>None\<close> of \<open>updateRecording\<close> is the \<open>undefined\<close> that \<open>find\<close> returns.\<close>

definition updateRecording_try :: "env \<Rightarrow> jsval \<Rightarrow> obj \<Rightarrow> storage \<Rightarrow> (error + obj option) \<times> storage" where
  "updateRecording_try e ident updates st =
     (let recordings = getRecordings e st;
          updatedRecordings =
            map (\<lambda>recording.
                   if strict_eq (get_prop recording ''id'') ident
                   then recording ++ updates else recording) recordings
      in case AsyncStorage_setItem e (map stringify_obj updatedRecordings) st of
           (Inl err, st') \<Rightarrow> (Inl err, st')
         | (Inr _, st') \<Rightarrow>
             (Inr (find (\<lambda>r. strict_eq (get_prop r ''id'') ident) updatedRecordings), st'))"

definition updateRecording :: "env \<Rightarrow> jsval \<Rightarrow> obj \<Rightarrow> storage \<Rightarrow> (error + obj option) \<times> storage" where
  "updateRecording e ident updates st =
     catch_rethrow ''Failed to update recording'' (updateRecording_try e ident updates st)"

definition deleteRecording_try :: "env \<Rightarrow> jsval \<Rightarrow> storage \<Rightarrow> (error + bool) \<times> storage" where
  "deleteRecording_try e ident st =
     (let recordings = getRecordings e st
      in case find (\<lambda>r. strict_eq (get_prop r ''id'') ident) recordings of
           None \<Rightarrow> (Inl (JsError ''Recording not found''), st)
         | Some recordingToDelete \<Rightarrow>
            (case FileSystem_deleteAsync e (get_prop recordingToDelete ''uri'') of
               Inl err \<Rightarrow> (Inl err, st)
             | Inr _ \<Rightarrow>
                (let updatedRecordings =
                       filter (\<lambda>r. \<not> strict_eq (get_prop r ''id'') ident) recordings
                 in case AsyncStorage_setItem e (map stringify_obj updatedRecordings) st of
                      (Inl err, st') \<Rightarrow> (Inl err, st')
                    | (Inr _, st') \<Rightarrow> (Inr True, st'))))"

definition deleteRecording :: "env \<Rightarrow> jsval \<Rightarrow> storage \<Rightarrow> (error + bool) \<times> storage" where
  "deleteRecording e ident st =
     catch_rethrow ''Failed to delete recording'' (deleteRecording_try e ident st)"

section \<open>Observations on results and on the ledger\<close>

text \<open>Property \<open>k\<close> of the record a call returned; \<open>None\<close> when the call threw.\<close>

definition result_prop :: "string \<Rightarrow> (error + obj) \<times> storage \<Rightarrow> jsval option" where
  "result_prop k r = (case fst r of Inl _ \<Rightarrow> None | Inr ob \<Rightarrow> Some (get_prop ob k))"

text \<open>Property \<open>k\<close> of every persisted record, in ledger order.\<close>

definition column :: "string \<Rightarrow> storage \<Rightarrow> json option list" where
  "column k st = map (\<lambda>s. s k) (ledger st)"

text \<open>The test \<open>recording.id === id\<close> on a persisted record, once parsed.\<close>

definition matches_id :: "jsval \<Rightarrow> stored \<Rightarrow> bool" where
  "matches_id ident s = strict_eq (get_prop (parse_obj s) ''id'') ident"


text \<open>
  A caller that awaits one \<open>saveRecording\<close> after the other: the results of the calls in
  call order, and the storage after the last one.
\<close>

fun save_calls :: "(env \<times> string \<times> obj) list \<Rightarrow> storage \<Rightarrow> (error + obj) list \<times> storage" where
  "save_calls [] st = ([], st)"
| "save_calls ((e, uri, metadata) # cs) st =
     (case saveRecording e uri metadata st of
        (r, st') \<Rightarrow> (case save_calls cs st' of (rs, st'') \<Rightarrow> (r # rs, st'')))"

text \<open>A platform on which every call succeeds, and a record as the service persists it.\<close>

definition demo_env :: env where
  "demo_env =
     \<lparr>documentDirectory = ''file:///data/'', uuid = ''1b9d6bcd'',
      now = ''2024-05-01T10:00:00.000Z'', getInfo_fails = False, dir_exists = True,
      makeDirectory_fails = False, copy_fails = False, getItem_fails = False,
      setItem_fails = False, delete_fails = False\<rparr>"

definition demo_record :: stored where
  "demo_record =
     [''id'' \<mapsto> JStr ''a'',
      ''filename'' \<mapsto> JStr ''recording_a.m4a'',
      ''uri'' \<mapsto> JStr ''file:///data/recordings/recording_a.m4a'',
      ''createdAt'' \<mapsto> JStr ''2024-04-30T09:00:00.000Z'',
      ''duration'' \<mapsto> JNum 3,
      ''size'' \<mapsto> JNum 0,
      ''analysisResult'' \<mapsto> JNull]"

section \<open>The authentication service\<close>

text \<open>
  \<open>UserModel\<close>: every field is a Java \<open>String\<close> reference, so it may be \<open>null\<close> (\<open>None\<close>).
  The field \<open>id\<close> is named \<open>id_field\<close> here.
\<close>

record UserModel =
  id_field :: "string option"
  username :: "string option"
  email :: "string option"
  password :: "string option"
  role :: "string option"

record ResponseEntity =
  status :: nat
  body :: string

text \<open>
  The collaborators injected into \<open>UserService\<close>: the user repository (over any
  representation \<open>'r\<close> of the stored users), the password encoder and the token
  signer. Their code is not part of the sources, so they are parameters.
\<close>

record 'r beans =
  existsByEmail :: "string option \<Rightarrow> 'r \<Rightarrow> bool"
  findByEmail :: "string option \<Rightarrow> 'r \<Rightarrow> UserModel option"
  save :: "UserModel \<Rightarrow> 'r \<Rightarrow> 'r"
  encode :: "string option \<Rightarrow> string"
  matches :: "string option \<Rightarrow> string option \<Rightarrow> bool"
  generateToken :: "string option \<Rightarrow> string"

definition register :: "'r beans \<Rightarrow> UserModel \<Rightarrow> 'r \<Rightarrow> ResponseEntity \<times> 'r" where
  "register b user repo =
     (if existsByEmail b (email user) repo
      then (\<lparr>status = 400, body = ''Email already in use''\<rparr>, repo)
      else
        (let user1 = user\<lparr>password := Some (encode b (password user))\<rparr>;
             user2 = user1\<lparr>role := Some ''ROLE_USER''\<rparr>
         in (\<lparr>status = 201, body = ''User registered successfully''\<rparr>, save b user2 repo)))"

definition login :: "'r beans \<Rightarrow> UserModel \<Rightarrow> 'r \<Rightarrow> ResponseEntity" where
  "login b user repo =
     (case findByEmail b (email user) repo of
        None \<Rightarrow> \<lparr>status = 401, body = ''Invalid email or password''\<rparr>
      | Some existingUser \<Rightarrow>
          if \<not> matches b (password user) (password existingUser)
          then \<lparr>status = 401, body = ''Invalid email or password''\<rparr>
          else \<lparr>status = 200, body = generateToken b (email existingUser)\<rparr>)"

text \<open>
  Collaborators to run the service on: the users are a list, the encoder prefixes the
  raw password with \<open>#\<close>, the token is \<open>jwt:\<close> followed by the email.
\<close>

definition demo_beans :: "UserModel list beans" where
  "demo_beans =
     \<lparr>existsByEmail = (\<lambda>e users. list_ex (\<lambda>u. email u = e) users),
      findByEmail = (\<lambda>e users. find (\<lambda>u. email u = e) users),
      save = (\<lambda>u users. users @ [u]),
      encode = (\<lambda>p. case p of None \<Rightarrow> ''#'' | Some raw \<Rightarrow> ''#'' @ raw),
      matches = (\<lambda>raw encoded. case raw of None \<Rightarrow> False | Some r \<Rightarrow> encoded = Some (''#'' @ r)),
      generateToken = (\<lambda>e. case e of None \<Rightarrow> ''jwt:'' | Some a \<Rightarrow> ''jwt:'' @ a)\<rparr>"

definition demo_user :: UserModel where
  "demo_user =
     \<lparr>id_field = Some ''u1'', username = Some ''ann'', email = Some ''ann@x.org'',
      password = Some ''#pw'', role = Some ''ROLE_USER''\<rparr>"

definition login_request :: "string \<Rightarrow> string \<Rightarrow> UserModel" where
  "login_request e p =
     \<lparr>id_field = None, username = None, email = Some e, password = Some p, role = None\<rparr>"

section \<open>Facts about the embedding\<close>

lemmas demo_simps = demo_env_def demo_record_def result_prop_def column_def ledger_def
  saveRecording_def saveRecording_try_def catch_rethrow_def ensureDirectoryExists_def
  FileSystem_copyAsync_def FileSystem_deleteAsync_def AsyncStorage_getItem_def
  AsyncStorage_setItem_def new_recording_def get_prop_def js_or_def stringify_obj_def
  parse_obj_def RECORDINGS_DIRECTORY_def getRecordings_def getRecordingById_def
  updateRecording_def updateRecording_try_def deleteRecording_def deleteRecording_try_def
  matches_id_def Let_def map_add_def



text \<open>Writing back what was parsed gives the same JSON text.\<close>

lemma stringify_parse: "stringify_obj (parse_obj s) = s"
  by (rule ext) (simp add: parse_obj_def stringify_obj_def split: option.splits)

lemma map_stringify_parse: "map stringify_obj (map parse_obj xs) = xs"
  by (induction xs) (simp_all add: stringify_parse)

lemma map_stringify_comp_parse: "map (stringify_obj \<circ> parse_obj) xs = xs"
  by (induction xs) (simp_all add: stringify_parse)

lemma getRecordings_ok:
  "\<not> getItem_fails e \<Longrightarrow> getRecordings e st = map parse_obj (ledger st)"
  by (simp add: getRecordings_def AsyncStorage_getItem_def ledger_def split: option.splits)

lemma getRecordings_failed: "getItem_fails e \<Longrightarrow> getRecordings e st = []"
  by (simp add: getRecordings_def AsyncStorage_getItem_def)


text \<open>What a \<open>saveRecording\<close> that returns has returned and written.\<close>

lemma saveRecording_Inr:
  assumes "saveRecording e uri metadata st = (Inr recording, st')"
  shows "recording = new_recording e metadata"
    and "st' = Some (stringify_obj recording # ledger st)"
  using assms
  by (auto simp: saveRecording_def saveRecording_try_def catch_rethrow_def Let_def
      FileSystem_copyAsync_def AsyncStorage_getItem_def AsyncStorage_setItem_def
      ledger_def map_stringify_comp_parse
      split: sum.splits if_splits option.splits prod.splits)





lemma find_unknown_id:
  "\<forall>s \<in> set xs. \<not> matches_id ident s \<Longrightarrow>
   find (\<lambda>r. strict_eq (get_prop r ''id'') ident) (map parse_obj xs) = None"
  by (induction xs) (simp_all add: matches_id_def)



section \<open>Claims about saveRecording\<close>




text \<open>
  Claim C3. After any sequence of \<open>saveRecording\<close> calls that all return, starting from
  any ledger, the ledger holds the new records in reverse call order (the most recent
  first), followed by the records that were there before, in their prior order.
\<close>

theorem saveRecording_newest_first:
  assumes "save_calls cs st = (map Inr recordings, st')"
  shows "ledger st' = rev (map stringify_obj recordings) @ ledger st"
  using assms
proof (induction cs arbitrary: st recordings)
  case Nil
  then show ?case by simp
next
  case (Cons c cs)
  obtain e uri metadata where c: "c = (e, uri, metadata)" by (cases c)
  obtain r st1 where s1: "saveRecording e uri metadata st = (r, st1)"
    by (cases "saveRecording e uri metadata st")
  obtain rs st2 where s2: "save_calls cs st1 = (rs, st2)"
    by (cases "save_calls cs st1")
  from Cons.prems c s1 s2 have eq: "map Inr recordings = r # rs" and st': "st' = st2"
    by simp_all
  then obtain x xs where rec: "recordings = x # xs" and r: "r = Inr x" and rs: "rs = map Inr xs"
    by (cases recordings) auto
  from s1 r have "ledger st1 = stringify_obj x # ledger st"
    using saveRecording_Inr(2) [of e uri metadata st x st1] by (simp add: ledger_def)
  moreover from Cons.IH [of st1 xs] s2 rs st'
  have "ledger st' = rev (map stringify_obj xs) @ ledger st1"
    by simp
  ultimately show ?case by (simp add: rec)
qed

text \<open>
  Claim C3, an instance: two saves (generated ids \<open>1b9d6bcd\<close>, then \<open>7e57\<close>) on a ledger
  that holds the record \<open>a\<close> leave the ids \<open>7e57\<close>, \<open>1b9d6bcd\<close>, \<open>a\<close> in this order.
\<close>

theorem saveRecording_newest_first_witness:
  "column ''id'' (snd (save_calls
       [(demo_env, ''file:///cache/a.m4a'', Map.empty),
        (demo_env\<lparr>uuid := ''7e57''\<rparr>, ''file:///cache/b.m4a'', Map.empty)]
       (Some [demo_record])))
     = [Some (JStr ''7e57''), Some (JStr ''1b9d6bcd''), Some (JStr ''a'')]"
proof -
  let ?e2 = "demo_env\<lparr>uuid := ''7e57''\<rparr>"
  let ?r1 = "new_recording demo_env Map.empty"
  let ?r2 = "new_recording ?e2 Map.empty"
  let ?st = "Some [stringify_obj ?r2, stringify_obj ?r1, demo_record]"
  have h: "save_calls
       [(demo_env, ''file:///cache/a.m4a'', Map.empty), (?e2, ''file:///cache/b.m4a'', Map.empty)]
       (Some [demo_record]) = (map Inr [?r1, ?r2], ?st)"
    by (simp add: saveRecording_def saveRecording_try_def catch_rethrow_def
        ensureDirectoryExists_def FileSystem_copyAsync_def AsyncStorage_getItem_def
        AsyncStorage_setItem_def demo_env_def Let_def stringify_parse)
  have "ledger ?st = rev (map stringify_obj [?r1, ?r2]) @ ledger (Some [demo_record])"
    using saveRecording_newest_first [OF h] .
  then show ?thesis
    unfolding h column_def
    by (simp add: ledger_def demo_env_def demo_record_def new_recording_def stringify_obj_def
        Let_def map_add_def)
qed

section \<open>Claims about getRecordingById\<close>




section \<open>Claims about updateRecording\<close>




text \<open>
  Claim C5, as the code has it. When no record of the ledger has the \<open>id\<close> asked for,
  and the read and the write of the ledger both succeed, \<open>updateRecording\<close> throws
  nothing: it returns \<open>undefined\<close> and the ledger is written back with the records it had.
\<close>

theorem updateRecording_unknown_id:
  assumes "\<not> getItem_fails e" and "\<not> setItem_fails e"
    and "\<forall>s \<in> set (ledger st). \<not> matches_id ident s"
  shows "updateRecording e ident updates st = (Inr None, Some (ledger st))"
proof -
  have m: "map (\<lambda>recording. if strict_eq (get_prop recording ''id'') ident
                 then recording ++ updates else recording) (map parse_obj xs) = map parse_obj xs"
    if "\<forall>s \<in> set xs. \<not> matches_id ident s" for xs
    using that by (induction xs) (simp_all add: matches_id_def)
  show ?thesis
    using assms(2)
    by (simp add: updateRecording_def updateRecording_try_def catch_rethrow_def Let_def
        getRecordings_ok [OF assms(1)] m [OF assms(3)] find_unknown_id [OF assms(3)]
        AsyncStorage_setItem_def map_stringify_parse del: map_map)
qed

text \<open>
  Claim C5, an instance: \<open>updateRecording('zz', {duration: 42})\<close> on a ledger that holds
  the record \<open>a\<close> only returns \<open>undefined\<close> and leaves the ledger as it was.
\<close>

theorem updateRecording_unknown_id_witness:
  "updateRecording demo_env (Val (JStr ''zz'')) [''duration'' \<mapsto> Val (JNum 42)]
     (Some [demo_record]) = (Inr None, Some [demo_record])"
proof -
  have a: "\<not> getItem_fails demo_env" and b: "\<not> setItem_fails demo_env"
    by (simp_all add: demo_env_def)
  have c: "\<forall>s \<in> set (ledger (Some [demo_record])). \<not> matches_id (Val (JStr ''zz'')) s"
    by (simp add: ledger_def matches_id_def demo_record_def parse_obj_def get_prop_def)
  from updateRecording_unknown_id [OF a b c] show ?thesis by (simp add: ledger_def)
qed

text \<open>
  Claim C5 as stated fails. With an \<open>id\<close> that matches no record: when the write of the
  ledger is rejected, \<open>updateRecording\<close> throws \<open>Failed to update recording\<close>; when the read
  is rejected, \<open>getRecordings\<close> gives the empty list and the ledger is written back empty.
\<close>

theorem updateRecording_unknown_id_counterexample:
  "updateRecording (demo_env\<lparr>setItem_fails := True\<rparr>) (Val (JStr ''zz''))
     [''duration'' \<mapsto> Val (JNum 42)] (Some [demo_record])
     = (Inl (JsError ''Failed to update recording''), Some [demo_record])
   \<and> updateRecording (demo_env\<lparr>getItem_fails := True\<rparr>) (Val (JStr ''zz''))
     [''duration'' \<mapsto> Val (JNum 42)] (Some [demo_record])
     = (Inr None, Some [])"
  by (simp add: demo_simps)




section \<open>Claims about deleteRecording\<close>

text \<open>
  Claim C6, as the code has it. When no record of the ledger has the \<open>id\<close> asked for,
  \<open>deleteRecording\<close> throws and leaves the persisted ledger as it was. The error the
  caller gets is \<open>Failed to delete recording\<close>, the one every failure of \<open>deleteRecording\<close>
  gives: the \<open>Recording not found\<close> error is thrown inside the \<open>try\<close>, logged by the
  \<open>catch\<close> and replaced.
\<close>

theorem deleteRecording_unknown_id:
  assumes "\<forall>s \<in> set (ledger st). \<not> matches_id ident s"
  shows "deleteRecording e ident st = (Inl (JsError ''Failed to delete recording''), st)"
  by (cases "getItem_fails e")
    (simp_all add: deleteRecording_def deleteRecording_try_def catch_rethrow_def Let_def
      getRecordings_ok getRecordings_failed find_unknown_id [OF assms])

text \<open>
  Claim C6, an instance: \<open>deleteRecording('zz')\<close> on a ledger that holds the record \<open>a\<close>
  only.
\<close>

theorem deleteRecording_unknown_id_witness:
  "deleteRecording demo_env (Val (JStr ''zz'')) (Some [demo_record])
     = (Inl (JsError ''Failed to delete recording''), Some [demo_record])"
proof -
  have c: "\<forall>s \<in> set (ledger (Some [demo_record])). \<not> matches_id (Val (JStr ''zz'')) s"
    by (simp add: ledger_def matches_id_def demo_record_def parse_obj_def get_prop_def)
  from deleteRecording_unknown_id [OF c] show ?thesis .
qed

text \<open>
  Claim C6 as stated fails: the body of the \<open>try\<close> throws \<open>Recording not found\<close> for the
  unknown id \<open>zz\<close>, but the caller of \<open>deleteRecording\<close> gets \<open>Failed to delete recording\<close>,
  the same error as when the deletion of the file or the write of the ledger is
  rejected for the known id \<open>a\<close>.
\<close>

theorem deleteRecording_not_found_counterexample:
  "fst (deleteRecording_try demo_env (Val (JStr ''zz'')) (Some [demo_record]))
     = Inl (JsError ''Recording not found'')
   \<and> fst (deleteRecording demo_env (Val (JStr ''zz'')) (Some [demo_record]))
     = Inl (JsError ''Failed to delete recording'')
   \<and> fst (deleteRecording (demo_env\<lparr>delete_fails := True\<rparr>) (Val (JStr ''a'')) (Some [demo_record]))
     = Inl (JsError ''Failed to delete recording'')
   \<and> fst (deleteRecording (demo_env\<lparr>setItem_fails := True\<rparr>) (Val (JStr ''a'')) (Some [demo_record]))
     = Inl (JsError ''Failed to delete recording'')"
  by (simp add: demo_simps)

text \<open>
  Claim C7. When a record of the ledger has the \<open>id\<close> asked for and the deletion of its
  file is rejected, \<open>deleteRecording\<close> throws and the persisted ledger is as it was: no
  record is removed.
\<close>

theorem deleteRecording_blob_failure:
  assumes "delete_fails e" and "\<exists>s \<in> set (ledger st). matches_id ident s"
  shows "deleteRecording e ident st = (Inl (JsError ''Failed to delete recording''), st)"
  using assms(1)
  by (simp add: deleteRecording_def deleteRecording_try_def catch_rethrow_def Let_def
      FileSystem_deleteAsync_def split: option.splits)

text \<open>
  Claim C7, an instance: \<open>deleteRecording('a')\<close> with the deletion of the file rejected
  leaves the record \<open>a\<close> in the ledger.
\<close>

theorem deleteRecording_blob_failure_witness:
  "deleteRecording (demo_env\<lparr>delete_fails := True\<rparr>) (Val (JStr ''a'')) (Some [demo_record])
     = (Inl (JsError ''Failed to delete recording''), Some [demo_record])"
proof -
  have a: "delete_fails (demo_env\<lparr>delete_fails := True\<rparr>)" by simp
  have c: "\<exists>s \<in> set (ledger (Some [demo_record])). matches_id (Val (JStr ''a'')) s"
    by (simp add: ledger_def matches_id_def demo_record_def parse_obj_def get_prop_def)
  from deleteRecording_blob_failure [OF a c] show ?thesis .
qed

section \<open>Claims about the authentication service\<close>

text \<open>
  Claim C8. A login whose email no stored user has, and a login whose email a stored
  user has but whose password does not match, both get status 401 with the same body
  \<open>Invalid email or password\<close>; a login whose email a stored user has and whose
  password matches gets status 200 with the token for that user's email as its body.
\<close>

theorem login_responses:
  "(findByEmail b (email user) repo = None \<longrightarrow>
      login b user repo = \<lparr>status = 401, body = ''Invalid email or password''\<rparr>)
   \<and> (findByEmail b (email user) repo = Some existingUser
        \<and> \<not> matches b (password user) (password existingUser) \<longrightarrow>
      login b user repo = \<lparr>status = 401, body = ''Invalid email or password''\<rparr>)
   \<and> (findByEmail b (email user) repo = Some existingUser
        \<and> matches b (password user) (password existingUser) \<longrightarrow>
      login b user repo = \<lparr>status = 200, body = generateToken b (email existingUser)\<rparr>)"
  by (simp add: login_def)

text \<open>
  Claim C8, an instance: with the user \<open>ann@x.org\<close> stored, an unknown email and a wrong
  password get the same 401 response, the right password gets 200 and the token.
\<close>

theorem login_responses_witness:
  "login demo_beans (login_request ''bob@x.org'' ''pw'') [demo_user]
     = \<lparr>status = 401, body = ''Invalid email or password''\<rparr>
   \<and> login demo_beans (login_request ''ann@x.org'' ''wrong'') [demo_user]
     = \<lparr>status = 401, body = ''Invalid email or password''\<rparr>
   \<and> login demo_beans (login_request ''ann@x.org'' ''pw'') [demo_user]
     = \<lparr>status = 200, body = ''jwt:ann@x.org''\<rparr>"
proof -
  have a: "findByEmail demo_beans (email (login_request ''bob@x.org'' ''pw'')) [demo_user] = None"
    by (simp add: demo_beans_def login_request_def demo_user_def)
  have b: "findByEmail demo_beans (email (login_request ''ann@x.org'' ''wrong'')) [demo_user]
             = Some demo_user
           \<and> \<not> matches demo_beans (password (login_request ''ann@x.org'' ''wrong''))
                 (password demo_user)"
    by (simp add: demo_beans_def login_request_def demo_user_def)
  have c: "findByEmail demo_beans (email (login_request ''ann@x.org'' ''pw'')) [demo_user]
             = Some demo_user
           \<and> matches demo_beans (password (login_request ''ann@x.org'' ''pw''))
                 (password demo_user)"
    by (simp add: demo_beans_def login_request_def demo_user_def)
  have g: "generateToken demo_beans (email demo_user) = ''jwt:ann@x.org''"
    by (simp add: demo_beans_def demo_user_def)
  from a b c g
    login_responses [where b = demo_beans and user = "login_request ''bob@x.org'' ''pw''"
      and repo = "[demo_user]"]
    login_responses [where b = demo_beans and user = "login_request ''ann@x.org'' ''wrong''"
      and repo = "[demo_user]" and existingUser = demo_user]
    login_responses [where b = demo_beans and user = "login_request ''ann@x.org'' ''pw''"
      and repo = "[demo_user]" and existingUser = demo_user]
  show ?thesis by simp
qed

text \<open>
  Claim C9. When \<open>register\<close> answers 201, the user it hands to the repository to store
  has the role \<open>ROLE_USER\<close>, and the role in the request has no effect: the response and
  the stored users are the same for every role the caller supplies.
\<close>

theorem register_role:
  assumes "status (fst (register b user repo)) = 201"
  shows "snd (register b user repo)
           = save b (user\<lparr>password := Some (encode b (password user)),
                           role := Some ''ROLE_USER''\<rparr>) repo
       \<and> role (user\<lparr>password := Some (encode b (password user)),
                     role := Some ''ROLE_USER''\<rparr>) = Some ''ROLE_USER''
       \<and> register b (user\<lparr>role := r\<rparr>) repo = register b user repo"
  using assms by (simp add: register_def Let_def split: if_splits)

text \<open>
  Claim C9, an instance: registering \<open>eve@x.org\<close> with the role \<open>ROLE_ADMIN\<close> in the
  request stores her with the role \<open>ROLE_USER\<close>.
\<close>

theorem register_role_witness:
  "map role (snd (register demo_beans
       \<lparr>id_field = None, username = Some ''eve'', email = Some ''eve@x.org'',
          password = Some ''pw'', role = Some ''ROLE_ADMIN''\<rparr> [demo_user]))
     = [Some ''ROLE_USER'', Some ''ROLE_USER'']"
proof -
  let ?u = "\<lparr>id_field = None, username = Some ''eve'', email = Some ''eve@x.org'',
          password = Some ''pw'', role = Some ''ROLE_ADMIN''\<rparr>"
  have a: "status (fst (register demo_beans ?u [demo_user])) = 201"
    by (simp add: register_def demo_beans_def demo_user_def)
  from register_role [OF a] show ?thesis
    by (simp add: demo_beans_def demo_user_def)
qed

end
